theory Spec2Isabelle
  imports Complex_Main
begin

section \<open>Python values used by the audio generator\<close>

text \<open>
  The development embeds the timing core of \<^verbatim>\<open>src/audio_generator.py\<close>:
  \<^verbatim>\<open>_time_to_milliseconds\<close>, \<^verbatim>\<open>_combine_audio_segments\<close>, \<^verbatim>\<open>_adjust_audio_speed\<close> and the
  part of \<^verbatim>\<open>_generate_segment_audio\<close> that chooses between the raw and the adjusted clip.

  Python strings are lists of characters; a \<^typ>\<open>char\<close> stands for a code point below 256.
  Python integers are unbounded, so they are \<^typ>\<open>int\<close>. An exception raised inside a
  \<^verbatim>\<open>try\<close> block is the \<open>Inl\<close> branch of a sum type; the \<^verbatim>\<open>except Exception\<close> handler of the
  enclosing method is a \<^theory_text>\<open>case\<close> on that sum.
\<close>

datatype exn = ValueError | KeyError | IOFailure | ZeroDivisionError | StretchFailure

subsection \<open>\<^verbatim>\<open>str.split\<close>, \<^verbatim>\<open>str.ljust\<close> and \<^verbatim>\<open>int(str)\<close>\<close>

text \<open>\<^verbatim>\<open>s.split(sep)\<close> for a one-character separator: always at least one field.\<close>

fun split_on :: "char \<Rightarrow> string \<Rightarrow> string list" where
  "split_on sep [] = [[]]"
| "split_on sep (c # cs) =
     (if c = sep then [] # split_on sep cs
      else (case split_on sep cs of
              [] \<Rightarrow> [[c]]
            | p # ps \<Rightarrow> (c # p) # ps))"

text \<open>\<^verbatim>\<open>s.ljust(width, fill)\<close>: pads on the right, never shortens.\<close>

definition ljust :: "string \<Rightarrow> nat \<Rightarrow> char \<Rightarrow> string" where
  "ljust s width fill = s @ replicate (width - length s) fill"

text \<open>
  \<^verbatim>\<open>int(s)\<close> in base 10: surrounding whitespace is stripped, one sign is allowed, then
  decimal digits follow, where single underscores may separate digits. Among the code
  points below 256 the whitespace accepted by \<^verbatim>\<open>int\<close> is TAB, LF, VT, FF, CR, space,
  NEL (0x85) and NBSP (0xA0), and the only decimal digits are \<^verbatim>\<open>0\<close> to \<^verbatim>\<open>9\<close>.
  The interpreter's optional cap on the number of digits of a converted string
  (\<^verbatim>\<open>sys.set_int_max_str_digits\<close>) is a run-time setting and is not part of the model.
\<close>

definition py_isspace :: "char \<Rightarrow> bool" where
  "py_isspace c \<longleftrightarrow>
     c = CHR 0x09 \<or> c = CHR 0x0A \<or> c = CHR 0x0B \<or> c = CHR 0x0C \<or> c = CHR 0x0D \<or>
     c = CHR '' '' \<or> c = CHR 0x85 \<or> c = CHR 0xA0"

definition strip :: "string \<Rightarrow> string" where
  "strip s = rev (dropWhile py_isspace (rev (dropWhile py_isspace s)))"

definition digit_val :: "char \<Rightarrow> nat option" where
  "digit_val =
     map_of [(CHR ''0'', 0), (CHR ''1'', 1), (CHR ''2'', 2), (CHR ''3'', 3), (CHR ''4'', 4),
             (CHR ''5'', 5), (CHR ''6'', 6), (CHR ''7'', 7), (CHR ''8'', 8), (CHR ''9'', 9)]"

text \<open>The digits after the first one; \<open>acc\<close> is the value read so far.\<close>

fun more_digits :: "nat \<Rightarrow> string \<Rightarrow> nat option" where
  "more_digits acc [] = Some acc"
| "more_digits acc (c # cs) =
     (if c = CHR ''_'' then
        (case cs of
           [] \<Rightarrow> None
         | c' # cs' \<Rightarrow>
             (case digit_val c' of
                None \<Rightarrow> None
              | Some d \<Rightarrow> more_digits (10 * acc + d) cs'))
      else
        (case digit_val c of
           None \<Rightarrow> None
         | Some d \<Rightarrow> more_digits (10 * acc + d) cs))"

definition digits :: "string \<Rightarrow> nat option" where
  "digits s =
     (case s of
        [] \<Rightarrow> None
      | c # cs \<Rightarrow> (case digit_val c of None \<Rightarrow> None | Some d \<Rightarrow> more_digits d cs))"

definition py_int :: "string \<Rightarrow> int option" where
  "py_int s =
     (case strip s of
        [] \<Rightarrow> None
      | c # cs \<Rightarrow>
          if c = CHR ''-'' then map_option (\<lambda>n. - int n) (digits cs)
          else if c = CHR ''+'' then map_option int (digits cs)
          else map_option int (digits (c # cs)))"

section \<open>TimeCodec: \<^verbatim>\<open>_time_to_milliseconds\<close>\<close>

text \<open>
  The body of the \<^verbatim>\<open>try\<close> block. Every \<^verbatim>\<open>int(...)\<close> that fails and the explicit
  \<^verbatim>\<open>raise ValueError\<close> for an unexpected number of fields give \<open>Inl ValueError\<close>.
\<close>

definition time_to_milliseconds_try :: "string \<Rightarrow> exn + int" where
  "time_to_milliseconds_try time_str =
     (let parts = split_on CHR '':'' time_str in
      if length parts = 4 then
        (case py_int (parts ! 0) of None \<Rightarrow> Inl ValueError | Some hours \<Rightarrow>
         case py_int (parts ! 1) of None \<Rightarrow> Inl ValueError | Some minutes \<Rightarrow>
         case py_int (parts ! 2) of None \<Rightarrow> Inl ValueError | Some seconds \<Rightarrow>
         case py_int (ljust (parts ! 3) 3 CHR ''0'') of None \<Rightarrow> Inl ValueError
         | Some milliseconds \<Rightarrow>
             Inr ((hours * 3600 + minutes * 60 + seconds) * 1000 + milliseconds))
      else if length parts = 3 then
        (case py_int (parts ! 0) of None \<Rightarrow> Inl ValueError | Some minutes \<Rightarrow>
         case py_int (parts ! 1) of None \<Rightarrow> Inl ValueError | Some seconds \<Rightarrow>
         case py_int (ljust (parts ! 2) 3 CHR ''0'') of None \<Rightarrow> Inl ValueError
         | Some milliseconds \<Rightarrow>
             Inr ((0 * 3600 + minutes * 60 + seconds) * 1000 + milliseconds))
      else Inl ValueError)"

text \<open>The method itself: \<^verbatim>\<open>except Exception\<close> prints a diagnostic and returns 0.\<close>

definition time_to_milliseconds :: "string \<Rightarrow> int" where
  "time_to_milliseconds time_str =
     (case time_to_milliseconds_try time_str of Inl e \<Rightarrow> 0 | Inr total_ms \<Rightarrow> total_ms)"

subsection \<open>Vocabulary for stating the timestamp properties\<close>

text \<open>A field made of decimal digits only, and the number it denotes.\<close>

definition all_digits :: "string \<Rightarrow> bool" where
  "all_digits s = list_all (\<lambda>c. digit_val c \<noteq> None) s"

definition dec_value :: "string \<Rightarrow> nat" where
  "dec_value s = foldl (\<lambda>acc c. 10 * acc + the (digit_val c)) 0 s"

text \<open>A millisecond field of one to three digits, and the value it has once it is
  read as the leading digits of a three-digit number.\<close>

definition short_ms_field :: "string \<Rightarrow> bool" where
  "short_ms_field d \<longleftrightarrow> d \<noteq> [] \<and> length d \<le> 3 \<and> all_digits d"

definition padded_ms :: "string \<Rightarrow> int" where
  "padded_ms d = int (dec_value d) * 10 ^ (3 - length d)"

definition long_ms_field :: "string \<Rightarrow> bool" where
  "long_ms_field d \<longleftrightarrow> 3 < length d \<and> all_digits d"

section \<open>TrackAssembler: \<^verbatim>\<open>_combine_audio_segments\<close>\<close>

subsection \<open>The audio library at its millisecond interface\<close>

text \<open>
  The method builds the track with the \<^verbatim>\<open>pydub\<close> library, which is not part of the
  repository. The method uses it only through its millisecond interface: \<^verbatim>\<open>len(a)\<close>
  is a duration in milliseconds, \<^verbatim>\<open>AudioSegment.silent(duration=d)\<close> takes milliseconds,
  \<^verbatim>\<open>a + b\<close> is concatenation and the fades take milliseconds. The model keeps exactly
  that interface: an audio segment is the list of its milliseconds. What is inside one
  millisecond is symbolic: silence, a millisecond of a loaded clip, or a millisecond
  whose gain a fade has changed. Durations below one millisecond (the library rounds
  sample counts to milliseconds and resamples on concatenation) are outside the model.
\<close>

datatype frame = Quiet | Pcm int | FadeIn frame | FadeOut frame

type_synonym audio = "frame list"

definition silent :: "int \<Rightarrow> audio" where
  "silent duration = replicate (nat duration) Quiet"

definition fade_in :: "nat \<Rightarrow> audio \<Rightarrow> audio" where
  "fade_in d a = map FadeIn (take d a) @ drop d a"

definition fade_out :: "nat \<Rightarrow> audio \<Rightarrow> audio" where
  "fade_out d a = take (length a - d) a @ map FadeOut (drop (length a - d) a)"

text \<open>Files: what can be read under a path, and which paths can be written.\<close>

record 'a disk =
  files :: "string \<rightharpoonup> 'a"
  writable :: "string \<Rightarrow> bool"

subsection \<open>Segments and the loop\<close>

text \<open>
  A generated segment is a dictionary; the three keys the assembler reads are fields
  here, \<open>None\<close> for a missing key. \<^verbatim>\<open>segment.get(key, default)\<close> supplies the default,
  \<^verbatim>\<open>segment[key]\<close> raises \<^verbatim>\<open>KeyError\<close>.
\<close>

record segment =
  segment_index :: "int option"
  start_time :: "string option"
  final_audio_file :: "string option"

definition get_segment_index :: "segment \<Rightarrow> int" where
  "get_segment_index x = (case segment_index x of None \<Rightarrow> 0 | Some i \<Rightarrow> i)"

definition get_start_time :: "segment \<Rightarrow> string" where
  "get_start_time x = (case start_time x of None \<Rightarrow> ''00:00:00:000'' | Some t \<Rightarrow> t)"

text \<open>The two variables the loop updates: the track and \<^verbatim>\<open>last_end_time\<close>, the cursor.\<close>

record loop_state =
  combined_audio :: audio
  last_end_time :: int

definition initial_state :: loop_state where
  "initial_state = \<lparr>combined_audio = [], last_end_time = 0\<rparr>"

text \<open>One iteration of \<^verbatim>\<open>for segment in segments\<close>.\<close>

definition combine_step :: "(string \<rightharpoonup> audio) \<Rightarrow> loop_state \<Rightarrow> segment \<Rightarrow> exn + loop_state" where
  "combine_step wavs st segment =
     (let start_time_ms = time_to_milliseconds (get_start_time segment);
          with_silence =
            (if start_time_ms > last_end_time st then
               (let silence_duration = start_time_ms - last_end_time st in
                if silence_duration > 20
                then combined_audio st @ silent silence_duration
                else combined_audio st)
             else combined_audio st)
      in case final_audio_file segment of
           None \<Rightarrow> Inl KeyError
         | Some path \<Rightarrow>
             (case wavs path of
                None \<Rightarrow> Inl IOFailure
              | Some wav \<Rightarrow>
                  (let segment_audio = fade_out 10 (fade_in 10 wav) in
                   Inr \<lparr>combined_audio = with_silence @ segment_audio,
                        last_end_time = start_time_ms + int (length segment_audio)\<rparr>)))"

fun combine_loop :: "(string \<rightharpoonup> audio) \<Rightarrow> loop_state \<Rightarrow> segment list \<Rightarrow> exn + loop_state" where
  "combine_loop wavs st [] = Inr st"
| "combine_loop wavs st (segment # segments) =
     (case combine_step wavs st segment of
        Inl e \<Rightarrow> Inl e
      | Inr st' \<Rightarrow> combine_loop wavs st' segments)"

definition final_audio_path :: "string \<Rightarrow> string" where
  "final_audio_path session_id = ''data/output/dubbed_audio_'' @ session_id @ ''.wav''"

text \<open>
  The body of the \<^verbatim>\<open>try\<close> block: the early return for an empty list, the stable sort
  by index, the loop, the export. The result is the returned path and the disk after
  the call.
\<close>

definition combine_audio_segments_try ::
  "audio disk \<Rightarrow> segment list \<Rightarrow> string \<Rightarrow> exn + (string \<times> audio disk)" where
  "combine_audio_segments_try dsk segments session_id =
     (if segments = [] then Inr ('''', dsk)
      else
        (case combine_loop (files dsk) initial_state (sort_key get_segment_index segments) of
           Inl e \<Rightarrow> Inl e
         | Inr st \<Rightarrow>
             (let final_file = final_audio_path session_id in
              if writable dsk final_file
              then Inr (final_file, dsk\<lparr>files := (files dsk)(final_file \<mapsto> combined_audio st)\<rparr>)
              else Inl IOFailure)))"

text \<open>The method: \<^verbatim>\<open>except Exception\<close> prints a diagnostic and returns the empty path.\<close>

definition combine_audio_segments :: "audio disk \<Rightarrow> segment list \<Rightarrow> string \<Rightarrow> string \<times> audio disk" where
  "combine_audio_segments dsk segments session_id =
     (case combine_audio_segments_try dsk segments session_id of
        Inl e \<Rightarrow> ('''', dsk)
      | Inr r \<Rightarrow> r)"

subsection \<open>Vocabulary for stating the assembly properties\<close>

text \<open>The slot start of a segment in milliseconds, as the loop computes it.\<close>

definition slot_start :: "segment \<Rightarrow> int" where
  "slot_start x = time_to_milliseconds (get_start_time x)"

text \<open>The clip the loop appends for a segment: the loaded file after both fades.\<close>

definition faded :: "audio \<Rightarrow> audio" where
  "faded wav = fade_out 10 (fade_in 10 wav)"



section \<open>DurationFitter: \<^verbatim>\<open>_adjust_audio_speed\<close>\<close>








section \<open>Concrete inputs\<close>

text \<open>A clip of 30 ms, an empty clip, and segments that refer to them.\<close>

definition clip30 :: audio where
  "clip30 = replicate 30 (Pcm 1)"

definition example_disk :: "audio disk" where
  "example_disk = \<lparr>files = [''a.wav'' \<mapsto> clip30, ''empty.wav'' \<mapsto> []], writable = (\<lambda>p. True)\<rparr>"

definition seg_at :: "int \<Rightarrow> string \<Rightarrow> string \<Rightarrow> segment" where
  "seg_at i t f = \<lparr>segment_index = Some i, start_time = Some t, final_audio_file = Some f\<rparr>"



section \<open>Properties of the timestamp parser\<close>

subsection \<open>Digit strings under \<^verbatim>\<open>int\<close>\<close>

lemma digit_not_space: "digit_val c = Some v \<Longrightarrow> \<not> py_isspace c"
  by (auto simp: digit_val_def py_isspace_def split: if_splits)

lemma digit_not_sign:
  "digit_val c = Some v \<Longrightarrow> c \<noteq> CHR ''-'' \<and> c \<noteq> CHR ''+'' \<and> c \<noteq> CHR ''_''"
  by (auto simp: digit_val_def split: if_splits)

lemma digit_val_zero: "digit_val CHR ''0'' = Some 0"
  by (simp add: digit_val_def)

lemma strip_all_digits: "all_digits s \<Longrightarrow> strip s = s"
proof (cases s)
  case Nil
  then show ?thesis by (simp add: strip_def)
next
  case (Cons c cs)
  assume a: "all_digits s"
  have h: "\<not> py_isspace (hd s)"
    using a Cons digit_not_space by (auto simp: all_digits_def)
  have l: "\<not> py_isspace (last s)"
  proof -
    have "last s \<in> set s" using Cons by simp
    then obtain v where "digit_val (last s) = Some v"
      using a by (auto simp: all_digits_def list_all_iff)
    then show ?thesis by (rule digit_not_space)
  qed
  have lead: "dropWhile py_isspace s = s"
    using h by (simp add: dropWhile_eq_self_iff)
  have "hd (rev s) = last s" using Cons by (simp add: hd_rev)
  then have trail: "dropWhile py_isspace (rev s) = rev s"
    using l by (simp add: dropWhile_eq_self_iff)
  show ?thesis by (simp add: strip_def lead trail)
qed

lemma more_digits_all_digits:
  "all_digits s \<Longrightarrow>
   more_digits acc s = Some (foldl (\<lambda>acc c. 10 * acc + the (digit_val c)) acc s)"
proof (induction s arbitrary: acc)
  case Nil
  then show ?case by simp
next
  case (Cons c cs)
  then obtain v where v: "digit_val c = Some v" by (auto simp: all_digits_def)
  have "c \<noteq> CHR ''_''" using v digit_not_sign by blast
  moreover have "all_digits cs" using Cons.prems by (simp add: all_digits_def)
  ultimately show ?case using Cons.IH v by simp
qed

lemma digits_all_digits: "all_digits s \<Longrightarrow> s \<noteq> [] \<Longrightarrow> digits s = Some (dec_value s)"
proof (cases s)
  case Nil
  assume "s \<noteq> []"
  with Nil show ?thesis by simp
next
  case (Cons c cs)
  assume a: "all_digits s"
  then obtain v where v: "digit_val c = Some v" using Cons by (auto simp: all_digits_def)
  have "all_digits cs" using a Cons by (simp add: all_digits_def)
  then show ?thesis
    using v Cons by (simp add: digits_def dec_value_def more_digits_all_digits)
qed

lemma py_int_all_digits:
  "all_digits s \<Longrightarrow> s \<noteq> [] \<Longrightarrow> py_int s = Some (int (dec_value s))"
proof (cases s)
  case Nil
  assume "s \<noteq> []"
  with Nil show ?thesis by simp
next
  case (Cons c cs)
  assume a: "all_digits s"
  then obtain v where v: "digit_val c = Some v" using Cons by (auto simp: all_digits_def)
  have ns: "c \<noteq> CHR ''-'' \<and> c \<noteq> CHR ''+''" using v digit_not_sign by blast
  have "strip s = c # cs" using a Cons strip_all_digits by simp
  moreover have "digits (c # cs) = Some (dec_value s)"
    using a Cons digits_all_digits by simp
  ultimately show ?thesis using ns by (simp add: py_int_def)
qed

lemma all_digits_ljust: "all_digits s \<Longrightarrow> all_digits (ljust s n CHR ''0'')"
  by (auto simp: all_digits_def ljust_def list_all_iff digit_val_zero)

lemma dec_value_append_zeros: "dec_value (s @ replicate k CHR ''0'') = dec_value s * 10 ^ k"
proof (induction k)
  case 0
  then show ?case by simp
next
  case (Suc k)
  have "replicate (Suc k) CHR ''0'' = replicate k CHR ''0'' @ [CHR ''0'']"
    by (simp add: replicate_append_same)
  then have "dec_value (s @ replicate (Suc k) CHR ''0'') =
      10 * dec_value (s @ replicate k CHR ''0'')"
    by (simp add: dec_value_def digit_val_def del: replicate_Suc)
  then show ?case using Suc by simp
qed

lemma py_int_ljust_short:
  assumes "short_ms_field d"
  shows "py_int (ljust d 3 CHR ''0'') = Some (padded_ms d)"
proof -
  have a: "all_digits d" and ne: "d \<noteq> []"
    using assms by (auto simp: short_ms_field_def)
  have "all_digits (ljust d 3 CHR ''0'')" using a by (rule all_digits_ljust)
  moreover have "ljust d 3 CHR ''0'' \<noteq> []" using ne by (simp add: ljust_def)
  ultimately have "py_int (ljust d 3 CHR ''0'') = Some (int (dec_value (ljust d 3 CHR ''0'')))"
    by (rule py_int_all_digits)
  then show ?thesis by (simp add: ljust_def dec_value_append_zeros padded_ms_def)
qed


lemmas eval_py_int =
  py_int_def strip_def py_isspace_def digits_def digit_val_def ljust_def

lemmas eval_ms_field =
  short_ms_field_def long_ms_field_def all_digits_def padded_ms_def dec_value_def digit_val_def

subsection \<open>Well-formed timestamps\<close>

text \<open>
  Claim C6. For a text of exactly three fields (minutes, seconds, milliseconds) or
  exactly four fields (hours, minutes, seconds, milliseconds) whose leading fields are
  accepted by \<^verbatim>\<open>int\<close> and whose last field is one to three decimal digits, the parser
  returns the milliseconds of the leading fields plus the last field read as the
  leading digits of a three-digit number, that is, right-padded with zeros.
\<close>

theorem time_to_milliseconds_padded:
  "(split_on CHR '':'' t = [b, c, d] \<longrightarrow> py_int b = Some m \<longrightarrow> py_int c = Some s \<longrightarrow>
      short_ms_field d \<longrightarrow>
      time_to_milliseconds t = (m * 60 + s) * 1000 + padded_ms d) \<and>
   (split_on CHR '':'' t = [a, b, c, d] \<longrightarrow> py_int a = Some h \<longrightarrow> py_int b = Some m \<longrightarrow>
      py_int c = Some s \<longrightarrow> short_ms_field d \<longrightarrow>
      time_to_milliseconds t = (h * 3600 + m * 60 + s) * 1000 + padded_ms d)"
  by (simp add: time_to_milliseconds_def time_to_milliseconds_try_def Let_def py_int_ljust_short)

text \<open>The two examples of the specification, obtained from the theorem.\<close>

theorem time_to_milliseconds_padded_witness:
  "time_to_milliseconds ''01:02:5'' = 62500 \<and>
   time_to_milliseconds ''00:01:02:050'' = 62050"
proof
  show "time_to_milliseconds ''01:02:5'' = 62500"
    using time_to_milliseconds_padded
      [where t = "''01:02:5''" and b = "''01''" and c = "''02''" and d = "''5''"
         and m = 1 and s = 2]
    by (simp add: eval_py_int eval_ms_field)
  show "time_to_milliseconds ''00:01:02:050'' = 62050"
    using time_to_milliseconds_padded
      [where t = "''00:01:02:050''" and a = "''00''" and b = "''01''" and c = "''02''"
         and d = "''050''" and h = 0 and m = 1 and s = 2]
    by (simp add: eval_py_int eval_ms_field)
qed

subsection \<open>Millisecond fields longer than three digits\<close>



subsection \<open>Malformed timestamps\<close>

text \<open>
  Claim C7, as the code has it. The parser pads the last field before it converts it,
  so a last field that \<^verbatim>\<open>int\<close> rejects can become acceptable: with an empty last field
  the text \<^verbatim>\<open>01:02:\<close> is read as 62000 ms, and \<^verbatim>\<open>01:02:+\<close> likewise.
\<close>

theorem time_to_milliseconds_empty_ms_field:
  "split_on CHR '':'' ''01:02:'' = [''01'', ''02'', ''''] \<and> py_int '''' = None \<and>
   time_to_milliseconds ''01:02:'' = 62000 \<and>
   split_on CHR '':'' ''01:02:+'' = [''01'', ''02'', ''+''] \<and> py_int ''+'' = None \<and>
   time_to_milliseconds ''01:02:+'' = 62000"
  by code_simp

text \<open>
  Claim C7, amended. When the number of fields is neither 3 nor 4, or \<^verbatim>\<open>int\<close> rejects
  one of the leading fields, or \<^verbatim>\<open>int\<close> rejects the last field after it has been
  right-padded with zeros to three characters, the body raises \<^verbatim>\<open>ValueError\<close>, the
  handler catches it, and the parser returns 0.
\<close>

theorem time_to_milliseconds_malformed:
  assumes "parts = split_on CHR '':'' t"
    and "(length parts \<noteq> 3 \<and> length parts \<noteq> 4) \<or>
         (\<exists>p \<in> set (butlast parts). py_int p = None) \<or>
         py_int (ljust (last parts) 3 CHR ''0'') = None"
  shows "time_to_milliseconds_try t = Inl ValueError \<and> time_to_milliseconds t = 0"
proof -
  have "time_to_milliseconds_try t = Inl ValueError"
  proof (cases "length parts = 4")
    case True
    then obtain a b c d where p: "parts = [a, b, c, d]"
      by (auto simp: length_Suc_conv numeral_eq_Suc)
    with assms(2) have "py_int a = None \<or> py_int b = None \<or> py_int c = None \<or>
        py_int (ljust d 3 CHR ''0'') = None"
      by auto
    then show ?thesis
      using p assms(1) by (auto simp: time_to_milliseconds_try_def Let_def split: option.splits)
  next
    case False
    note not4 = this
    show ?thesis
    proof (cases "length parts = 3")
      case True
      then obtain a b c where p: "parts = [a, b, c]"
        by (auto simp: length_Suc_conv numeral_eq_Suc)
      with assms(2) have "py_int a = None \<or> py_int b = None \<or>
          py_int (ljust c 3 CHR ''0'') = None"
        by auto
      then show ?thesis
        using p assms(1) by (auto simp: time_to_milliseconds_try_def Let_def split: option.splits)
    next
      case False
      then show ?thesis
        using not4 assms(1) by (simp add: time_to_milliseconds_try_def Let_def)
    qed
  qed
  then show ?thesis by (simp add: time_to_milliseconds_def)
qed

theorem time_to_milliseconds_malformed_witness:
  "time_to_milliseconds ''1:2'' = 0 \<and> time_to_milliseconds ''12:xx:500'' = 0 \<and>
   time_to_milliseconds ''00:00:00.000'' = 0"
proof (intro conjI)
  show "time_to_milliseconds ''1:2'' = 0"
    using time_to_milliseconds_malformed [of "[''1'', ''2'']" "''1:2''"] by simp
  show "time_to_milliseconds ''12:xx:500'' = 0"
    using time_to_milliseconds_malformed [of "[''12'', ''xx'', ''500'']" "''12:xx:500''"]
    by (simp add: eval_py_int)
  show "time_to_milliseconds ''00:00:00.000'' = 0"
    using time_to_milliseconds_malformed [of "[''00'', ''00'', ''00.000'']" "''00:00:00.000''"]
    by (simp add: eval_py_int)
qed

section \<open>Properties of the track assembler\<close>

subsection \<open>Durations of the library operations\<close>

lemma length_silent: "length (silent d) = nat d"
  by (simp add: silent_def)

lemma length_fade_in: "length (fade_in d a) = length a"
  by (simp add: fade_in_def)

lemma length_fade_out: "length (fade_out d a) = length a"
  by (simp add: fade_out_def)


subsection \<open>One iteration\<close>

lemma combine_step_loaded:
  assumes "final_audio_file x = Some p" and "wavs p = Some wav"
  shows "combine_step wavs st x =
    Inr \<lparr>combined_audio =
           combined_audio st @
           (if 20 < slot_start x - last_end_time st
            then replicate (nat (slot_start x - last_end_time st)) Quiet else []) @
           faded wav,
         last_end_time = slot_start x + int (length wav)\<rparr>"
  using assms
  by (simp add: combine_step_def Let_def slot_start_def faded_def silent_def
      length_fade_in length_fade_out)




subsection \<open>The loop\<close>






subsection \<open>Evaluation at the concrete inputs\<close>

lemma example_files:
  "files example_disk ''a.wav'' = Some clip30"
  "files example_disk ''empty.wav'' = Some []"
  "writable example_disk p"
  by (simp_all add: example_disk_def)

lemma seg_at_fields:
  "final_audio_file (seg_at i t f) = Some f"
  "get_segment_index (seg_at i t f) = i"
  "slot_start (seg_at i t f) = time_to_milliseconds t"
  by (simp_all add: seg_at_def slot_start_def get_start_time_def get_segment_index_def)

lemma example_times:
  "time_to_milliseconds ''00:00:000'' = 0"
  "time_to_milliseconds ''00:00:010'' = 10"
  "time_to_milliseconds ''00:00:020'' = 20"
  "time_to_milliseconds ''00:00:055'' = 55"
  "time_to_milliseconds ''00:00:100'' = 100"
  "time_to_milliseconds ''00:00:110'' = 110"
  by (simp_all add: time_to_milliseconds_def time_to_milliseconds_try_def Let_def eval_py_int)

lemma length_clip30: "length clip30 = 30"
  by (simp add: clip30_def)

lemmas eval_step = combine_step_loaded seg_at_fields example_files example_times length_clip30

subsection \<open>The cursor and the length of the track\<close>




subsection \<open>The track and the slot ends\<close>




subsection \<open>Gaps\<close>




subsection \<open>Overlaps\<close>




subsection \<open>The empty list\<close>

text \<open>
  Claim C9. For the empty list the assembler returns the empty path and leaves the disk
  as it was. That result differs from every successful assembly of a non-empty list,
  also one of zero-length content: such an assembly returns a non-empty path and has
  written a file under it.
\<close>

theorem combine_empty_input:
  "combine_audio_segments dsk [] session_id = ('''', dsk) \<and>
   (segments \<noteq> [] \<longrightarrow>
    combine_audio_segments_try dsk segments session_id = Inr (path, dsk') \<longrightarrow>
    combine_audio_segments dsk segments session_id = (path, dsk') \<and>
    path \<noteq> '''' \<and> files dsk' path \<noteq> None)"
  by (auto simp: combine_audio_segments_def combine_audio_segments_try_def Let_def
      final_audio_path_def split: sum.splits if_splits)

theorem combine_empty_input_witness:
  "fst (combine_audio_segments example_disk [seg_at 0 ''00:00:000'' ''empty.wav''] ''s1'') =
     ''data/output/dubbed_audio_s1.wav'' \<and>
   files (snd (combine_audio_segments example_disk [seg_at 0 ''00:00:000'' ''empty.wav''] ''s1''))
     ''data/output/dubbed_audio_s1.wav'' = Some [] \<and>
   fst (combine_audio_segments example_disk [] ''s1'') = ''''"
proof -
  let ?segs = "[seg_at 0 ''00:00:000'' ''empty.wav'']"
  let ?d' = "example_disk\<lparr>files := (files example_disk)(''data/output/dubbed_audio_s1.wav'' \<mapsto> [])\<rparr>"
  have ok: "combine_audio_segments_try example_disk ?segs ''s1'' =
      Inr (''data/output/dubbed_audio_s1.wav'', ?d')"
    by (simp add: combine_audio_segments_try_def Let_def eval_step initial_state_def
        final_audio_path_def faded_def fade_in_def fade_out_def)
  have ne: "?segs \<noteq> []" by simp
  from combine_empty_input [of example_disk "''s1''" ?segs "''data/output/dubbed_audio_s1.wav''" ?d']
    ne ok
  show ?thesis by simp
qed

section \<open>Properties of the duration fitter\<close>











end
